theory Spec2Isabelle
  imports Complex_Main
begin

section \<open>The ideal gas simulation of src/pygame/ideal_gas.py\<close>

text \<open>
  The script keeps every coordinate, velocity and container dimension in a Python float.
  Here they are idealised as real numbers: \<open>+\<close>, \<open>-\<close>, \<open>*\<close>, \<open>/\<close> and the square
  root are exact. A division of the source whose divisor can be zero is a branch of the
  model that returns an error, since the reals have neither \<open>nan\<close> nor \<open>inf\<close>.
  A reference to a particle object is its index in the list \<open>Simulation.particles\<close>,
  so that \<open>p1 is p2\<close> is equality of indices.
\<close>

subsection \<open>Constants\<close>

definition PARTICLE_SIZE :: real where
  "PARTICLE_SIZE = 5"

definition PARTICLE_COUNT :: nat where
  "PARTICLE_COUNT = 100"

definition GAS_CONSTANT :: real where
  "GAS_CONSTANT = 1"

definition CELL_SIZE :: real where
  "CELL_SIZE = PARTICLE_SIZE * 2"

subsection \<open>Errors\<close>

text \<open>
  \<open>ZeroDivisionError\<close> and \<open>IndexError\<close> are the Python exceptions. \<open>NumpyDivideByZero\<close>
  marks a division by zero among numpy scalars (\<open>distance\<close> is the result of \<open>np.sqrt\<close>):
  numpy does not raise there, it warns and yields \<open>nan\<close> or \<open>inf\<close>, which then spreads
  into the particles.
\<close>

datatype error = ZeroDivisionError | IndexError | NumpyDivideByZero

subsection \<open>Particle\<close>

record particle =
  x :: real
  y :: real
  vx :: real
  vy :: real
  radius :: real
  mass :: real
  color :: "int \<times> int \<times> int"
  cell_x :: int
  cell_y :: int

text \<open>Python's \<open>int(f)\<close> on a float truncates towards zero.\<close>

definition py_int :: "real \<Rightarrow> int" where
  "py_int r = (if 0 \<le> r then \<lfloor>r\<rfloor> else \<lceil>r\<rceil>)"

text \<open>\<open>int(v // CELL_SIZE)\<close>: floor division, then the conversion of an integral float.\<close>

definition cell_of :: "real \<Rightarrow> real \<Rightarrow> int" where
  "cell_of v csize = py_int (of_int \<lfloor>v / csize\<rfloor>)"

definition get_color :: "real \<Rightarrow> real \<Rightarrow> int \<times> int \<times> int" where
  "get_color pvx pvy =
     (let speed = sqrt (pvx ^ 2 + pvy ^ 2)
      in (py_int (min (speed * 25.5) 255), 0, max 0 (py_int (255 - speed * 25.5))))"

definition Particle_init :: "real \<Rightarrow> real \<Rightarrow> real \<Rightarrow> real \<Rightarrow> particle" where
  "Particle_init px py pvx pvy =
     \<lparr> x = px, y = py, vx = pvx, vy = pvy, radius = PARTICLE_SIZE, mass = 1,
       color = get_color pvx pvy,
       cell_x = cell_of px CELL_SIZE, cell_y = cell_of py CELL_SIZE \<rparr>"

text \<open>
  \<open>Particle.update\<close>: the mutated object is returned beside the boolean result.
  The four stages are the source's: advance, horizontal walls, vertical walls, grid cell
  and colour.
\<close>

definition wall_x :: "particle \<Rightarrow> real \<Rightarrow> bool \<times> particle" where
  "wall_x self width =
     (if x self - radius self < 0
      then (True, self\<lparr>vx := \<bar>vx self\<bar>, x := radius self\<rparr>)
      else if x self + radius self > width
      then (True, self\<lparr>vx := - \<bar>vx self\<bar>, x := width - radius self\<rparr>)
      else (False, self))"

definition wall_y :: "bool \<Rightarrow> particle \<Rightarrow> real \<Rightarrow> bool \<times> particle" where
  "wall_y collision self height =
     (if y self - radius self < 0
      then (True, self\<lparr>vy := \<bar>vy self\<bar>, y := radius self\<rparr>)
      else if y self + radius self > height
      then (True, self\<lparr>vy := - \<bar>vy self\<bar>, y := height - radius self\<rparr>)
      else (collision, self))"

definition update_cell :: "particle \<Rightarrow> particle" where
  "update_cell self =
     (let new_cell_x = cell_of (x self) CELL_SIZE;
          new_cell_y = cell_of (y self) CELL_SIZE
      in if new_cell_x \<noteq> cell_x self \<or> new_cell_y \<noteq> cell_y self
         then self\<lparr>cell_x := new_cell_x, cell_y := new_cell_y\<rparr>
         else self)"

definition Particle_update :: "particle \<Rightarrow> real \<Rightarrow> real \<Rightarrow> bool \<times> particle" where
  "Particle_update self width height =
     (let s1 = self\<lparr>x := x self + vx self\<rparr>;
          s2 = s1\<lparr>y := y s1 + vy s1\<rparr>;
          (c1, s3) = wall_x s2 width;
          (c2, s4) = wall_y c1 s3 height;
          s5 = update_cell s4
      in (c2, s5\<lparr>color := get_color (vx s5) (vy s5)\<rparr>))"

text \<open>A particle alone in the container: \<open>n\<close> calls of \<open>update\<close> with the same bounds.\<close>

fun run_updates :: "nat \<Rightarrow> particle \<Rightarrow> real \<Rightarrow> real \<Rightarrow> particle" where
  "run_updates 0 p w h = p"
| "run_updates (Suc n) p w h = run_updates n (snd (Particle_update p w h)) w h"

subsection \<open>Python lists and ranges\<close>

text \<open>
  \<open>xs[i]\<close>: a negative index counts from the end, and an index out of range raises
  \<open>IndexError\<close>. The result is the position that is read or written.
\<close>

definition py_index :: "'a list \<Rightarrow> int \<Rightarrow> error + nat" where
  "py_index xs i =
     (let n = int (length xs); j = (if i < 0 then n + i else i)
      in if 0 \<le> j \<and> j < n then Inr (nat j) else Inl IndexError)"

text \<open>\<open>range(a, b)\<close> on integers.\<close>

definition py_range :: "int \<Rightarrow> int \<Rightarrow> int list" where
  "py_range a b = [a..b - 1]"

subsection \<open>SpatialGrid\<close>

text \<open>A cell holds references to particles: their indices in the particle list.\<close>

record spatial_grid =
  cell_size :: real
  cols :: int
  rows :: int
  grid :: "nat list list list"

definition SpatialGrid_init :: "real \<Rightarrow> real \<Rightarrow> spatial_grid" where
  "SpatialGrid_init w h =
     (let cs = CELL_SIZE;
          c = cell_of w cs + 1;
          r = cell_of h cs + 1
      in \<lparr> cell_size = cs, cols = c, rows = r,
           grid = replicate (nat c) (replicate (nat r) []) \<rparr>)"

text \<open>\<open>min(max(0, int(v // self.cell_size)), n - 1)\<close>\<close>

definition clamp_index :: "real \<Rightarrow> real \<Rightarrow> int \<Rightarrow> int" where
  "clamp_index v cs n = min (max 0 (cell_of v cs)) (n - 1)"

definition SpatialGrid_insert :: "spatial_grid \<Rightarrow> particle list \<Rightarrow> nat \<Rightarrow> error + spatial_grid" where
  "SpatialGrid_insert self ps p =
     (if cell_size self = 0 then Inl ZeroDivisionError
      else
        let col = clamp_index (x (ps ! p)) (cell_size self) (cols self);
            row = clamp_index (y (ps ! p)) (cell_size self) (rows self)
        in case py_index (grid self) col of
             Inl e \<Rightarrow> Inl e
           | Inr c \<Rightarrow>
               (case py_index (grid self ! c) row of
                  Inl e \<Rightarrow> Inl e
                | Inr r \<Rightarrow>
                    Inr (self\<lparr>grid := (grid self)[c := (grid self ! c)[r := grid self ! c ! r @ [p]]]\<rparr>)))"

text \<open>The inner and the outer loop of \<open>get_potential_collisions\<close>.\<close>

fun extend_rows :: "nat list list list \<Rightarrow> int \<Rightarrow> int list \<Rightarrow> nat list \<Rightarrow> error + nat list" where
  "extend_rows g i [] acc = Inr acc"
| "extend_rows g i (j # js) acc =
     (case py_index g i of
        Inl e \<Rightarrow> Inl e
      | Inr c \<Rightarrow>
          (case py_index (g ! c) j of
             Inl e \<Rightarrow> Inl e
           | Inr r \<Rightarrow> extend_rows g i js (acc @ g ! c ! r)))"

fun extend_cols :: "nat list list list \<Rightarrow> int list \<Rightarrow> int list \<Rightarrow> nat list \<Rightarrow> error + nat list" where
  "extend_cols g [] js acc = Inr acc"
| "extend_cols g (i # ks) js acc =
     (case extend_rows g i js acc of
        Inl e \<Rightarrow> Inl e
      | Inr acc' \<Rightarrow> extend_cols g ks js acc')"

definition SpatialGrid_get_potential_collisions ::
    "spatial_grid \<Rightarrow> particle list \<Rightarrow> nat \<Rightarrow> error + nat list" where
  "SpatialGrid_get_potential_collisions self ps p =
     (if cell_size self = 0 then Inl ZeroDivisionError
      else
        let col = clamp_index (x (ps ! p)) (cell_size self) (cols self);
            row = clamp_index (y (ps ! p)) (cell_size self) (rows self)
        in extend_cols (grid self)
             (py_range (max 0 (col - 1)) (min (col + 2) (cols self)))
             (py_range (max 0 (row - 1)) (min (row + 2) (rows self))) [])"

subsection \<open>check_particle_collision\<close>

text \<open>
  The two particles are given by their references \<open>i1\<close> and \<open>i2\<close> into the list \<open>ps\<close>;
  the result is the boolean and the list with both particles as the call leaves them.
  The source divides by \<open>distance\<close> and by \<open>m1 + m2\<close> without a test.
\<close>

definition check_particle_collision ::
    "particle list \<Rightarrow> nat \<Rightarrow> nat \<Rightarrow> error + (bool \<times> particle list)" where
  "check_particle_collision ps i1 i2 =
     (if i1 = i2 then Inr (False, ps)
      else
        let p1 = ps ! i1; p2 = ps ! i2;
            dx = x p2 - x p1;
            dy = y p2 - y p1;
            distance = sqrt (dx ^ 2 + dy ^ 2)
        in if distance < radius p1 + radius p2 then
             (if distance = 0 then Inl NumpyDivideByZero
              else
                let nx = dx / distance;
                    ny = dy / distance;
                    tx = - ny;
                    ty = nx;
                    dvx = vx p2 - vx p1;
                    dvy = vy p2 - vy p1;
                    normal_vel = dvx * nx + dvy * ny
                in if normal_vel \<ge> 0 then Inr (False, ps)
                   else
                     let m1 = mass p1; m2 = mass p2
                     in if m1 + m2 = 0 then Inl NumpyDivideByZero
                        else
                          let v1n = ((m1 - m2) * (vx p1 * nx + vy p1 * ny)
                                       + 2 * m2 * (vx p2 * nx + vy p2 * ny)) / (m1 + m2);
                              v2n = ((m2 - m1) * (vx p2 * nx + vy p2 * ny)
                                       + 2 * m1 * (vx p1 * nx + vy p1 * ny)) / (m1 + m2);
                              v1t = vx p1 * tx + vy p1 * ty;
                              v2t = vx p2 * tx + vy p2 * ty;
                              q1 = p1\<lparr>vx := v1n * nx + v1t * tx, vy := v1n * ny + v1t * ty\<rparr>;
                              q2 = p2\<lparr>vx := v2n * nx + v2t * tx, vy := v2n * ny + v2t * ty\<rparr>;
                              overlap = radius p1 + radius p2 - distance;
                              r1 = (if overlap > 0
                                    then q1\<lparr>x := x q1 - 0.5 * overlap * nx,
                                            y := y q1 - 0.5 * overlap * ny\<rparr>
                                    else q1);
                              r2 = (if overlap > 0
                                    then q2\<lparr>x := x q2 + 0.5 * overlap * nx,
                                            y := y q2 + 0.5 * overlap * ny\<rparr>
                                    else q2)
                          in Inr (True, ps[i1 := r1, i2 := r2]))
           else Inr (False, ps))"

subsection \<open>Simulation\<close>

record simulation =
  width :: real
  height :: real
  particles :: "particle list"
  spatial_grid :: spatial_grid
  volume :: real
  pressure :: real
  temperature :: real
  collision_count :: int
  time_elapsed :: real

text \<open>
  \<open>np.random.uniform(low, high)\<close> is \<open>low + (high - low) * u\<close> for a sample \<open>u\<close> of
  \<open>[0, 1)\<close>. The constructor takes its samples from \<open>rnd\<close>, four for each particle, in the
  order of the arguments of \<open>Particle(...)\<close>.
\<close>

definition uniform :: "real \<Rightarrow> real \<Rightarrow> real \<Rightarrow> real" where
  "uniform low high u = low + (high - low) * u"

definition Simulation_init :: "real \<Rightarrow> real \<Rightarrow> (nat \<Rightarrow> real) \<Rightarrow> simulation" where
  "Simulation_init w h rnd =
     \<lparr> width = w, height = h,
       particles =
         map (\<lambda>k. Particle_init
                     (uniform PARTICLE_SIZE (w - PARTICLE_SIZE) (rnd (4 * k)))
                     (uniform PARTICLE_SIZE (h - PARTICLE_SIZE) (rnd (4 * k + 1)))
                     (uniform (- 5) 5 (rnd (4 * k + 2)))
                     (uniform (- 5) 5 (rnd (4 * k + 3))))
             [0..<PARTICLE_COUNT],
       spatial_grid = SpatialGrid_init w h,
       volume = w * h, pressure = 0, temperature = 0,
       collision_count = 0, time_elapsed = 0 \<rparr>"

text \<open>The grid of one tick: a new \<open>SpatialGrid\<close>, then \<open>insert\<close> for each particle in order.\<close>

fun insert_all :: "spatial_grid \<Rightarrow> particle list \<Rightarrow> nat list \<Rightarrow> error + spatial_grid" where
  "insert_all g ps [] = Inr g"
| "insert_all g ps (k # ks) =
     (case SpatialGrid_insert g ps k of
        Inl e \<Rightarrow> Inl e
      | Inr g' \<Rightarrow> insert_all g' ps ks)"

definition rebuild_grid :: "real \<Rightarrow> real \<Rightarrow> particle list \<Rightarrow> error + spatial_grid" where
  "rebuild_grid w h ps = insert_all (SpatialGrid_init w h) ps [0..<length ps]"

text \<open>The loop over the candidates of one particle, and the loop over the particles.\<close>

fun check_others :: "particle list \<Rightarrow> nat \<Rightarrow> nat list \<Rightarrow> error + particle list" where
  "check_others ps k [] = Inr ps"
| "check_others ps k (other # others) =
     (case check_particle_collision ps k other of
        Inl e \<Rightarrow> Inl e
      | Inr (_, ps') \<Rightarrow> check_others ps' k others)"

fun collide_all :: "spatial_grid \<Rightarrow> particle list \<Rightarrow> nat list \<Rightarrow> error + particle list" where
  "collide_all g ps [] = Inr ps"
| "collide_all g ps (k # ks) =
     (case SpatialGrid_get_potential_collisions g ps k of
        Inl e \<Rightarrow> Inl e
      | Inr potential_collisions \<Rightarrow>
          (case check_others ps k potential_collisions of
             Inl e \<Rightarrow> Inl e
           | Inr ps' \<Rightarrow> collide_all g ps' ks))"

definition Simulation_update :: "simulation \<Rightarrow> real \<Rightarrow> error + simulation" where
  "Simulation_update self dt =
     (let t = time_elapsed self + dt;
          results = map (\<lambda>p. Particle_update p (width self) (height self)) (particles self);
          wall_collisions = int (length (filter fst results));
          ps1 = map snd results
      in case rebuild_grid (width self) (height self) ps1 of
           Inl e \<Rightarrow> Inl e
         | Inr g \<Rightarrow>
             (case collide_all g ps1 [0..<length ps1] of
                Inl e \<Rightarrow> Inl e
              | Inr ps2 \<Rightarrow>
                  let n = collision_count self + wall_collisions
                  in if t \<ge> 1 then
                       (if t * width self * height self = 0 then Inl ZeroDivisionError
                        else
                          let pr = of_int n / (t * width self * height self) * 1000
                          in Inr (self\<lparr>particles := ps2, spatial_grid := g,
                                       pressure := pr, collision_count := 0, time_elapsed := 0,
                                       temperature :=
                                         (pr * volume self) / (real PARTICLE_COUNT * GAS_CONSTANT)\<rparr>))
                     else
                       Inr (self\<lparr>particles := ps2, spatial_grid := g,
                                 collision_count := n, time_elapsed := t,
                                 temperature :=
                                   (pressure self * volume self)
                                     / (real PARTICLE_COUNT * GAS_CONSTANT)\<rparr>)))"

definition resize_particle :: "particle \<Rightarrow> real \<Rightarrow> real \<Rightarrow> real \<Rightarrow> real \<Rightarrow> particle" where
  "resize_particle p w h old_width old_height =
     (let p1 = p\<lparr>x := min (max (x p * (w / old_width)) (radius p)) (w - radius p)\<rparr>;
          p2 = p1\<lparr>y := min (max (y p1 * (h / old_height)) (radius p1)) (h - radius p1)\<rparr>
      in p2\<lparr>cell_x := cell_of (x p2) CELL_SIZE, cell_y := cell_of (y p2) CELL_SIZE\<rparr>)"

definition Simulation_resize :: "simulation \<Rightarrow> real \<Rightarrow> real \<Rightarrow> error + simulation" where
  "Simulation_resize self w h =
     (let old_width = width self;
          old_height = height self;
          s1 = self\<lparr>width := w, height := h, volume := w * h\<rparr>
      in if particles s1 = [] then Inr s1
         else if old_width = 0 \<or> old_height = 0 then Inl ZeroDivisionError
         else Inr (s1\<lparr>particles :=
                        map (\<lambda>p. resize_particle p w h old_width old_height) (particles s1)\<rparr>))"

subsection \<open>Auxiliary definitions\<close>

text \<open>
  The quantities of \<open>check_particle_collision\<close>, named so that the lemmas can speak
  about them: the distance of the centres, the unit normal, the relative velocity along
  the normal, and the two particles as the resolving branch leaves them.
\<close>

definition center_distance :: "particle \<Rightarrow> particle \<Rightarrow> real" where
  "center_distance p1 p2 = sqrt ((x p2 - x p1)\<^sup>2 + (y p2 - y p1)\<^sup>2)"

definition normal_velocity :: "particle \<Rightarrow> particle \<Rightarrow> real" where
  "normal_velocity p1 p2 =
     (vx p2 - vx p1) * ((x p2 - x p1) / center_distance p1 p2)
       + (vy p2 - vy p1) * ((y p2 - y p1) / center_distance p1 p2)"

definition resolved :: "particle \<Rightarrow> particle \<Rightarrow> particle \<times> particle" where
  "resolved p1 p2 =
     (let dx = x p2 - x p1;
          dy = y p2 - y p1;
          distance = sqrt (dx ^ 2 + dy ^ 2);
          nx = dx / distance;
          ny = dy / distance;
          tx = - ny;
          ty = nx;
          m1 = mass p1; m2 = mass p2;
          v1n = ((m1 - m2) * (vx p1 * nx + vy p1 * ny)
                   + 2 * m2 * (vx p2 * nx + vy p2 * ny)) / (m1 + m2);
          v2n = ((m2 - m1) * (vx p2 * nx + vy p2 * ny)
                   + 2 * m1 * (vx p1 * nx + vy p1 * ny)) / (m1 + m2);
          v1t = vx p1 * tx + vy p1 * ty;
          v2t = vx p2 * tx + vy p2 * ty;
          q1 = p1\<lparr>vx := v1n * nx + v1t * tx, vy := v1n * ny + v1t * ty\<rparr>;
          q2 = p2\<lparr>vx := v2n * nx + v2t * tx, vy := v2n * ny + v2t * ty\<rparr>;
          overlap = radius p1 + radius p2 - distance;
          r1 = (if overlap > 0
                then q1\<lparr>x := x q1 - 0.5 * overlap * nx,
                        y := y q1 - 0.5 * overlap * ny\<rparr>
                else q1);
          r2 = (if overlap > 0
                then q2\<lparr>x := x q2 + 0.5 * overlap * nx,
                        y := y q2 + 0.5 * overlap * ny\<rparr>
                else q2)
      in (r1, r2))"

definition normal_x :: "particle \<Rightarrow> particle \<Rightarrow> real" where
  "normal_x p1 p2 = (x p2 - x p1) / center_distance p1 p2"

definition normal_y :: "particle \<Rightarrow> particle \<Rightarrow> real" where
  "normal_y p1 p2 = (y p2 - y p1) / center_distance p1 p2"

text \<open>
  The shape of a grid as \<open>SpatialGrid.__init__\<close> builds it for a container of
  non-negative width and height, the cell indices that \<open>insert\<close> and
  \<open>get_potential_collisions\<close> compute for a particle, and the content of a cell.
\<close>

definition wf_grid :: "spatial_grid \<Rightarrow> bool" where
  "wf_grid g \<longleftrightarrow>
     cell_size g \<noteq> 0 \<and> 1 \<le> cols g \<and> 1 \<le> rows g \<and>
     length (grid g) = nat (cols g) \<and> (\<forall>c \<in> set (grid g). length c = nat (rows g))"

definition col_of :: "spatial_grid \<Rightarrow> particle \<Rightarrow> nat" where
  "col_of g p = nat (clamp_index (x p) (cell_size g) (cols g))"

definition row_of :: "spatial_grid \<Rightarrow> particle \<Rightarrow> nat" where
  "row_of g p = nat (clamp_index (y p) (cell_size g) (rows g))"

definition cell :: "spatial_grid \<Rightarrow> nat \<Rightarrow> nat \<Rightarrow> nat list" where
  "cell g c r = grid g ! c ! r"

text \<open>The number of particles whose \<open>update\<close> reports a wall contact in the coming tick.\<close>

definition wall_collisions :: "simulation \<Rightarrow> int" where
  "wall_collisions s =
     int (length (filter (\<lambda>p. fst (Particle_update p (width s) (height s))) (particles s)))"

subsection \<open>Example states\<close>

definition particle_a :: particle where
  "particle_a = \<lparr> x = 93, y = 8, vx = 4, vy = - 6, radius = 5, mass = 1,
                  color = (0, 0, 0), cell_x = 9, cell_y = 0 \<rparr>"

definition particle_b :: particle where
  "particle_b = \<lparr> x = 3, y = 50, vx = 1, vy = 0, radius = 5, mass = 1,
                  color = (0, 0, 0), cell_x = 0, cell_y = 5 \<rparr>"

definition particle_c :: particle where
  "particle_c = \<lparr> x = 42, y = 50, vx = 2, vy = 0, radius = 5, mass = 1,
                  color = (51, 0, 204), cell_x = 4, cell_y = 5 \<rparr>"

definition particle_d :: particle where
  "particle_d = \<lparr> x = 50, y = 50, vx = - 2, vy = 0, radius = 5, mass = 1,
                  color = (51, 0, 204), cell_x = 5, cell_y = 5 \<rparr>"

definition particle_e :: particle where
  "particle_e = \<lparr> x = 5, y = 5, vx = 1, vy = 3, radius = 5, mass = 1,
                  color = (80, 0, 174), cell_x = 0, cell_y = 0 \<rparr>"

definition particle_f :: particle where
  "particle_f = \<lparr> x = 5, y = 5, vx = 2, vy = 1, radius = 5, mass = 1,
                  color = (57, 0, 197), cell_x = 0, cell_y = 0 \<rparr>"

definition particle_i :: particle where
  "particle_i = \<lparr> x = 8, y = 15, vx = - 4, vy = 0, radius = 5, mass = 1,
                  color = (102, 0, 153), cell_x = 0, cell_y = 1 \<rparr>"

definition particle_j :: particle where
  "particle_j = \<lparr> x = 16, y = 15, vx = 1, vy = 0, radius = 5, mass = 1,
                  color = (25, 0, 229), cell_x = 1, cell_y = 1 \<rparr>"

definition simulation_h :: simulation where
  "simulation_h = \<lparr> width = 30, height = 30, particles = [particle_i, particle_j],
                     spatial_grid = SpatialGrid_init 30 30, volume = 900, pressure = 0,
                     temperature = 0, collision_count = 3, time_elapsed = 3 / 4 \<rparr>"

text \<open>A random source that returns the same sample each time.\<close>

definition rnd_g :: "nat \<Rightarrow> real" where
  "rnd_g k = 1 / 690"

section \<open>Properties of Particle.update\<close>

lemma update_cell_fields [simp]:
  "x (update_cell p) = x p" "y (update_cell p) = y p"
  "vx (update_cell p) = vx p" "vy (update_cell p) = vy p"
  "radius (update_cell p) = radius p" "mass (update_cell p) = mass p"
  by (simp_all add: update_cell_def Let_def)

lemma Particle_update_x:
  "x (snd (Particle_update p w h)) =
     (if x p + vx p - radius p < 0 then radius p
      else if x p + vx p + radius p > w then w - radius p
      else x p + vx p)"
  by (simp add: Particle_update_def wall_x_def wall_y_def Let_def split_beta)

lemma Particle_update_y:
  "y (snd (Particle_update p w h)) =
     (if y p + vy p - radius p < 0 then radius p
      else if y p + vy p + radius p > h then h - radius p
      else y p + vy p)"
  by (simp add: Particle_update_def wall_x_def wall_y_def Let_def split_beta)

lemma Particle_update_vx:
  "vx (snd (Particle_update p w h)) =
     (if x p + vx p - radius p < 0 then \<bar>vx p\<bar>
      else if x p + vx p + radius p > w then - \<bar>vx p\<bar>
      else vx p)"
  by (simp add: Particle_update_def wall_x_def wall_y_def Let_def split_beta)

lemma Particle_update_vy:
  "vy (snd (Particle_update p w h)) =
     (if y p + vy p - radius p < 0 then \<bar>vy p\<bar>
      else if y p + vy p + radius p > h then - \<bar>vy p\<bar>
      else vy p)"
  by (simp add: Particle_update_def wall_x_def wall_y_def Let_def split_beta)

lemma Particle_update_radius [simp]:
  "radius (snd (Particle_update p w h)) = radius p"
  by (simp add: Particle_update_def wall_x_def wall_y_def Let_def split_beta)

lemma Particle_update_mass [simp]:
  "mass (snd (Particle_update p w h)) = mass p"
  by (simp add: Particle_update_def wall_x_def wall_y_def Let_def split_beta)

lemma Particle_update_fst:
  "fst (Particle_update p w h) \<longleftrightarrow>
     x p + vx p - radius p < 0 \<or> x p + vx p + radius p > w \<or>
     y p + vy p - radius p < 0 \<or> y p + vy p + radius p > h"
  by (auto simp add: Particle_update_def wall_x_def wall_y_def Let_def split_beta)



lemma Particle_update_speed:
  "(vx (snd (Particle_update p w h)))\<^sup>2 + (vy (snd (Particle_update p w h)))\<^sup>2 = (vx p)\<^sup>2 + (vy p)\<^sup>2"
  by (simp add: Particle_update_vx Particle_update_vy)

text \<open>
  C7 (elastic wall reflection). A wall contact replaces a velocity component by its
  absolute value or by the negative of it, so \<open>vx\<^sup>2 + vy\<^sup>2\<close> is the same after any
  number of calls of \<open>Particle.update\<close> with fixed bounds.
\<close>

theorem wall_bounce_energy:
  "(vx (run_updates n p w h))\<^sup>2 + (vy (run_updates n p w h))\<^sup>2 = (vx p)\<^sup>2 + (vy p)\<^sup>2"
  by (induction n arbitrary: p) (simp_all add: Particle_update_speed)

text \<open>
  C2 as stated fails where a particle that touches a wall is already moving away from
  it: the particle below has its left edge beyond the left wall and moves right; the
  call clamps it, reports the contact and keeps its velocity, which is not negated.
\<close>

theorem negation_counterexample:
  "x particle_b + vx particle_b - radius particle_b < 0 \<and>
   x (snd (Particle_update particle_b 100 100)) = radius particle_b \<and>
   fst (Particle_update particle_b 100 100) \<and>
   vx (snd (Particle_update particle_b 100 100)) = vx particle_b \<and>
   vx (snd (Particle_update particle_b 100 100)) \<noteq> - vx particle_b"
  by (simp add: particle_b_def Particle_update_x Particle_update_vx Particle_update_fst)

text \<open>
  C2 (amended). On each axis, after the position is advanced: when the near edge is
  beyond the left (top) wall the position becomes \<open>radius\<close> and the velocity component
  its absolute value; otherwise, when the far edge is beyond the right (bottom) wall the
  position becomes the wall minus \<open>radius\<close> and the velocity component the negative of
  its absolute value; otherwise neither changes. The call returns true exactly when one
  of the four tests held. For a particle that began the call within the bounds of an
  axis, a contact on that axis negates the velocity component.
\<close>

theorem update_wall_response:
  "x (snd (Particle_update p w h)) =
     (if x p + vx p - radius p < 0 then radius p
      else if x p + vx p + radius p > w then w - radius p
      else x p + vx p) \<and>
   vx (snd (Particle_update p w h)) =
     (if x p + vx p - radius p < 0 then \<bar>vx p\<bar>
      else if x p + vx p + radius p > w then - \<bar>vx p\<bar>
      else vx p) \<and>
   y (snd (Particle_update p w h)) =
     (if y p + vy p - radius p < 0 then radius p
      else if y p + vy p + radius p > h then h - radius p
      else y p + vy p) \<and>
   vy (snd (Particle_update p w h)) =
     (if y p + vy p - radius p < 0 then \<bar>vy p\<bar>
      else if y p + vy p + radius p > h then - \<bar>vy p\<bar>
      else vy p) \<and>
   (fst (Particle_update p w h) \<longleftrightarrow>
      x p + vx p - radius p < 0 \<or> x p + vx p + radius p > w \<or>
      y p + vy p - radius p < 0 \<or> y p + vy p + radius p > h) \<and>
   (radius p \<le> x p \<and> x p \<le> w - radius p \<and>
      (x p + vx p - radius p < 0 \<or> x p + vx p + radius p > w)
      \<longrightarrow> vx (snd (Particle_update p w h)) = - vx p) \<and>
   (radius p \<le> y p \<and> y p \<le> h - radius p \<and>
      (y p + vy p - radius p < 0 \<or> y p + vy p + radius p > h)
      \<longrightarrow> vy (snd (Particle_update p w h)) = - vy p)"
  unfolding Particle_update_x Particle_update_y Particle_update_vx Particle_update_vy
    Particle_update_fst
  by auto

theorem update_wall_response_witness:
  "radius particle_a \<le> x particle_a \<and> x particle_a \<le> 100 - radius particle_a \<and>
   x particle_a + vx particle_a + radius particle_a > 100 \<and>
   vx (snd (Particle_update particle_a 100 100)) = - 4 \<and>
   x (snd (Particle_update particle_a 100 100)) = 95 \<and>
   fst (Particle_update particle_a 100 100)"
  using update_wall_response [of particle_a 100 100]
  by (simp add: particle_a_def)

section \<open>Properties of check_particle_collision\<close>

lemma sqrt_64: "sqrt 64 = 8"
  by (rule real_sqrt_unique) simp_all

lemma check_particle_collision_cases:
  "check_particle_collision ps i j =
     (if i = j then Inr (False, ps)
      else if \<not> center_distance (ps ! i) (ps ! j) < radius (ps ! i) + radius (ps ! j)
      then Inr (False, ps)
      else if center_distance (ps ! i) (ps ! j) = 0 then Inl NumpyDivideByZero
      else if normal_velocity (ps ! i) (ps ! j) \<ge> 0 then Inr (False, ps)
      else if mass (ps ! i) + mass (ps ! j) = 0 then Inl NumpyDivideByZero
      else Inr (True, ps[i := fst (resolved (ps ! i) (ps ! j)),
                         j := snd (resolved (ps ! i) (ps ! j))]))"
proof -
  note defs = check_particle_collision_def resolved_def normal_velocity_def
    center_distance_def Let_def fst_conv snd_conv
  let ?d = "center_distance (ps ! i) (ps ! j)"
  let ?R = "radius (ps ! i) + radius (ps ! j)"
  let ?nv = "normal_velocity (ps ! i) (ps ! j)"
  let ?M = "mass (ps ! i) + mass (ps ! j)"
  consider (same) "i = j"
    | (apart) "i \<noteq> j" "\<not> ?d < ?R"
    | (zero) "i \<noteq> j" "?d < ?R" "?d = 0"
    | (separating) "i \<noteq> j" "?d < ?R" "?d \<noteq> 0" "?nv \<ge> 0"
    | (massless) "i \<noteq> j" "?d < ?R" "?d \<noteq> 0" "\<not> ?nv \<ge> 0" "?M = 0"
    | (resolve) "i \<noteq> j" "?d < ?R" "?d \<noteq> 0" "\<not> ?nv \<ge> 0" "?M \<noteq> 0"
    by blast
  then show ?thesis
  proof cases
    case same
    then show ?thesis
      by (simp add: check_particle_collision_def)
  next
    case apart
    then show ?thesis
      unfolding defs by (simp only: if_True if_False simp_thms)
  next
    case zero
    then show ?thesis
      unfolding defs by (simp only: if_True if_False simp_thms)
  next
    case separating
    then show ?thesis
      unfolding defs by (simp only: if_True if_False simp_thms)
  next
    case massless
    then show ?thesis
      unfolding defs by (simp only: if_True if_False simp_thms)
  next
    case resolve
    then show ?thesis
      unfolding defs by (simp only: if_True if_False simp_thms)
  qed
qed





lemma unit_normal:
  fixes dx dy :: real
  assumes "sqrt (dx\<^sup>2 + dy\<^sup>2) \<noteq> 0"
  shows "(dx / sqrt (dx\<^sup>2 + dy\<^sup>2))\<^sup>2 + (dy / sqrt (dx\<^sup>2 + dy\<^sup>2))\<^sup>2 = 1"
proof -
  have nz: "dx\<^sup>2 + dy\<^sup>2 \<noteq> 0"
    using assms by auto
  have sq: "(sqrt (dx\<^sup>2 + dy\<^sup>2))\<^sup>2 = dx\<^sup>2 + dy\<^sup>2"
    by simp
  have "(dx / sqrt (dx\<^sup>2 + dy\<^sup>2))\<^sup>2 + (dy / sqrt (dx\<^sup>2 + dy\<^sup>2))\<^sup>2
        = (dx\<^sup>2 + dy\<^sup>2) / (sqrt (dx\<^sup>2 + dy\<^sup>2))\<^sup>2"
    by (simp only: power_divide add_divide_distrib)
  also have "\<dots> = (dx\<^sup>2 + dy\<^sup>2) / (dx\<^sup>2 + dy\<^sup>2)"
    by (simp only: sq)
  also have "\<dots> = 1"
    using nz by (rule divide_self)
  finally show ?thesis .
qed




lemma normal_unit:
  "center_distance p1 p2 \<noteq> 0 \<Longrightarrow> (normal_x p1 p2)\<^sup>2 + (normal_y p1 p2)\<^sup>2 = 1"
  unfolding normal_x_def normal_y_def center_distance_def by (rule unit_normal)

lemma select_velocity_update:
  "vx (p\<lparr>vx := a, vy := b\<rparr>) = a" "vy (p\<lparr>vx := a, vy := b\<rparr>) = b"
  "x (p\<lparr>vx := a, vy := b\<rparr>) = x p" "y (p\<lparr>vx := a, vy := b\<rparr>) = y p"
  "x (p\<lparr>x := c, y := d\<rparr>) = c" "y (p\<lparr>x := c, y := d\<rparr>) = d"
  by simp_all

lemma select_separated:
  "vx (if c then q\<lparr>x := a, y := b\<rparr> else q) = vx q"
  "vy (if c then q\<lparr>x := a, y := b\<rparr> else q) = vy q"
  "x (if c then q\<lparr>x := a, y := b\<rparr> else q) = (if c then a else x q)"
  "y (if c then q\<lparr>x := a, y := b\<rparr> else q) = (if c then b else y q)"
  by simp_all


lemma resolved_unchanged [simp]:
  "radius (fst (resolved p1 p2)) = radius p1" "radius (snd (resolved p1 p2)) = radius p2"
  "mass (fst (resolved p1 p2)) = mass p1" "mass (snd (resolved p1 p2)) = mass p2"
  by (simp_all add: resolved_def Let_def)

lemma resolved_position:
  assumes "center_distance p1 p2 < radius p1 + radius p2"
  shows "x (fst (resolved p1 p2)) =
           x p1 - 0.5 * (radius p1 + radius p2 - center_distance p1 p2) * normal_x p1 p2"
    and "y (fst (resolved p1 p2)) =
           y p1 - 0.5 * (radius p1 + radius p2 - center_distance p1 p2) * normal_y p1 p2"
    and "x (snd (resolved p1 p2)) =
           x p2 + 0.5 * (radius p1 + radius p2 - center_distance p1 p2) * normal_x p1 p2"
    and "y (snd (resolved p1 p2)) =
           y p2 + 0.5 * (radius p1 + radius p2 - center_distance p1 p2) * normal_y p1 p2"
proof -
  have ov: "0 < radius p1 + radius p2 - sqrt ((x p2 - x p1)\<^sup>2 + (y p2 - y p1)\<^sup>2)"
    using assms by (simp add: center_distance_def)
  show "x (fst (resolved p1 p2)) =
           x p1 - 0.5 * (radius p1 + radius p2 - center_distance p1 p2) * normal_x p1 p2"
    and "y (fst (resolved p1 p2)) =
           y p1 - 0.5 * (radius p1 + radius p2 - center_distance p1 p2) * normal_y p1 p2"
    and "x (snd (resolved p1 p2)) =
           x p2 + 0.5 * (radius p1 + radius p2 - center_distance p1 p2) * normal_x p1 p2"
    and "y (snd (resolved p1 p2)) =
           y p2 + 0.5 * (radius p1 + radius p2 - center_distance p1 p2) * normal_y p1 p2"
    unfolding resolved_def normal_x_def normal_y_def center_distance_def Let_def fst_conv snd_conv
    by (simp_all only: select_separated select_velocity_update ov if_True)
qed


lemma check_resolvedD:
  assumes "check_particle_collision ps i j = Inr (True, ps')"
  shows "i \<noteq> j"
    and "center_distance (ps ! i) (ps ! j) < radius (ps ! i) + radius (ps ! j)"
    and "center_distance (ps ! i) (ps ! j) \<noteq> 0"
    and "normal_velocity (ps ! i) (ps ! j) < 0"
    and "mass (ps ! i) + mass (ps ! j) \<noteq> 0"
    and "ps' = ps[i := fst (resolved (ps ! i) (ps ! j)), j := snd (resolved (ps ! i) (ps ! j))]"
  using assms unfolding check_particle_collision_cases
  by (simp_all split: if_splits)

lemma resolved_nth:
  assumes "i < length ps" "j < length ps" "i \<noteq> j"
  shows "ps[i := a, j := b] ! i = a" "ps[i := a, j := b] ! j = b"
  using assms by simp_all




text \<open>
  C6 (numerical degeneracy). The source has no special case for a zero distance: for two
  distinct particles at the same position, such as two particles clamped into the same
  corner by \<open>Particle.update\<close>, it evaluates \<open>dx / distance\<close> with \<open>distance = 0\<close>.
\<close>

theorem coincident_particles_divide_by_zero:
  "check_particle_collision [particle_e, particle_f] 0 1 = Inl NumpyDivideByZero"
  by (simp add: check_particle_collision_def particle_e_def particle_f_def Let_def)

lemma scaled_norm:
  fixes R nx ny :: real
  assumes "nx\<^sup>2 + ny\<^sup>2 = 1" and "0 \<le> R"
  shows "sqrt ((R * nx)\<^sup>2 + (R * ny)\<^sup>2) = R"
proof -
  have "(R * nx)\<^sup>2 + (R * ny)\<^sup>2 = R\<^sup>2 * (nx\<^sup>2 + ny\<^sup>2)"
    by (simp add: power_mult_distrib distrib_left)
  also have "\<dots> = R\<^sup>2"
    using assms(1) by simp
  finally show ?thesis
    using assms(2) by simp
qed

lemma separation_offset:
  fixes d R a b n :: real
  assumes "d \<noteq> 0" and "n = (b - a) / d"
  shows "(b + 0.5 * (R - d) * n) - (a - 0.5 * (R - d) * n) = R * n"
proof -
  have "b - a = d * n"
    using assms by simp
  then have "(b + 0.5 * (R - d) * n) - (a - 0.5 * (R - d) * n) = d * n + (R - d) * n"
    by (simp add: algebra_simps)
  also have "\<dots> = R * n"
    by (simp add: algebra_simps)
  finally show ?thesis .
qed

lemma resolved_distance:
  assumes lt: "center_distance p1 p2 < radius p1 + radius p2"
    and nz: "center_distance p1 p2 \<noteq> 0"
  shows "center_distance (fst (resolved p1 p2)) (snd (resolved p1 p2)) = radius p1 + radius p2"
    and "center_distance (snd (resolved p1 p2)) (fst (resolved p1 p2)) = radius p1 + radius p2"
proof -
  let ?R = "radius p1 + radius p2"
  let ?nx = "normal_x p1 p2" and ?ny = "normal_y p1 p2"
  have "0 \<le> center_distance p1 p2"
    by (simp add: center_distance_def)
  with lt have R: "0 \<le> ?R" by simp
  have n: "?nx\<^sup>2 + ?ny\<^sup>2 = 1"
    using nz by (rule normal_unit)
  have dx: "x (snd (resolved p1 p2)) - x (fst (resolved p1 p2)) = ?R * ?nx"
    unfolding resolved_position [OF lt]
    by (rule separation_offset [OF nz]) (simp add: normal_x_def)
  have dy: "y (snd (resolved p1 p2)) - y (fst (resolved p1 p2)) = ?R * ?ny"
    unfolding resolved_position [OF lt]
    by (rule separation_offset [OF nz]) (simp add: normal_y_def)
  show fwd: "center_distance (fst (resolved p1 p2)) (snd (resolved p1 p2)) = ?R"
    unfolding center_distance_def dx dy by (rule scaled_norm [OF n R])
  have "center_distance (snd (resolved p1 p2)) (fst (resolved p1 p2))
        = center_distance (fst (resolved p1 p2)) (snd (resolved p1 p2))"
    by (simp add: center_distance_def power2_commute)
  then show "center_distance (snd (resolved p1 p2)) (fst (resolved p1 p2)) = ?R"
    using fwd by simp
qed

text \<open>
  C10 (re-resolution). After a call that resolved a collision of \<open>i\<close> and \<open>j\<close>, the
  distance of the two centres is exactly the sum of the radii, so a second call on the
  same pair, in either order of the arguments, fails the strict overlap test: it returns
  false and leaves every particle as it was.
\<close>

theorem re_resolution_is_noop:
  assumes "i < length ps" and "j < length ps"
    and "check_particle_collision ps i j = Inr (True, ps')"
  shows "check_particle_collision ps' i j = Inr (False, ps') \<and>
         check_particle_collision ps' j i = Inr (False, ps')"
proof -
  note r = check_resolvedD [OF assms(3)]
  have i': "ps' ! i = fst (resolved (ps ! i) (ps ! j))"
    and j': "ps' ! j = snd (resolved (ps ! i) (ps ! j))"
    using assms(1,2) r(1) by (simp_all add: r(6))
  have "\<not> center_distance (ps' ! i) (ps' ! j) < radius (ps' ! i) + radius (ps' ! j)"
    unfolding i' j' resolved_unchanged resolved_distance [OF r(2) r(3)] by simp
  moreover have "\<not> center_distance (ps' ! j) (ps' ! i) < radius (ps' ! j) + radius (ps' ! i)"
    unfolding i' j' resolved_unchanged resolved_distance [OF r(2) r(3)] by simp
  ultimately show ?thesis
    using r(1) by (simp add: check_particle_collision_cases)
qed

theorem re_resolution_is_noop_witness:
  "check_particle_collision [particle_c, particle_d] 0 1 =
     Inr (True, [particle_c\<lparr>vx := - 2, vy := 0, x := 41, y := 50\<rparr>,
                 particle_d\<lparr>vx := 2, vy := 0, x := 51, y := 50\<rparr>]) \<and>
   check_particle_collision [particle_c\<lparr>vx := - 2, vy := 0, x := 41, y := 50\<rparr>,
                 particle_d\<lparr>vx := 2, vy := 0, x := 51, y := 50\<rparr>] 0 1 =
     Inr (False, [particle_c\<lparr>vx := - 2, vy := 0, x := 41, y := 50\<rparr>,
                 particle_d\<lparr>vx := 2, vy := 0, x := 51, y := 50\<rparr>]) \<and>
   check_particle_collision [particle_c\<lparr>vx := - 2, vy := 0, x := 41, y := 50\<rparr>,
                 particle_d\<lparr>vx := 2, vy := 0, x := 51, y := 50\<rparr>] 1 0 =
     Inr (False, [particle_c\<lparr>vx := - 2, vy := 0, x := 41, y := 50\<rparr>,
                 particle_d\<lparr>vx := 2, vy := 0, x := 51, y := 50\<rparr>])"
proof -
  have run: "check_particle_collision [particle_c, particle_d] 0 1 =
     Inr (True, [particle_c\<lparr>vx := - 2, vy := 0, x := 41, y := 50\<rparr>,
                 particle_d\<lparr>vx := 2, vy := 0, x := 51, y := 50\<rparr>])"
    by (simp add: check_particle_collision_def particle_c_def particle_d_def Let_def sqrt_64)
  from re_resolution_is_noop [OF _ _ run] run show ?thesis
    by simp
qed

section \<open>Properties of Simulation.resize\<close>

lemma resize_particle_fields:
  "x (resize_particle p w h ow oh) = min (max (x p * (w / ow)) (radius p)) (w - radius p)"
  "y (resize_particle p w h ow oh) = min (max (y p * (h / oh)) (radius p)) (h - radius p)"
  "vx (resize_particle p w h ow oh) = vx p" "vy (resize_particle p w h ow oh) = vy p"
  "radius (resize_particle p w h ow oh) = radius p" "mass (resize_particle p w h ow oh) = mass p"
  by (simp_all add: resize_particle_def Let_def)

lemma Simulation_resize_Inr:
  assumes "width s \<noteq> 0" and "height s \<noteq> 0"
  shows "Simulation_resize s w h =
           Inr (s\<lparr>width := w, height := h, volume := w * h,
                  particles := map (\<lambda>p. resize_particle p w h (width s) (height s)) (particles s)\<rparr>)"
  using assms by (simp add: Simulation_resize_def Let_def)

lemma Simulation_init_nth:
  "k < PARTICLE_COUNT \<Longrightarrow>
   particles (Simulation_init w h rnd) ! k =
     Particle_init (uniform PARTICLE_SIZE (w - PARTICLE_SIZE) (rnd (4 * k)))
                   (uniform PARTICLE_SIZE (h - PARTICLE_SIZE) (rnd (4 * k + 1)))
                   (uniform (- 5) 5 (rnd (4 * k + 2))) (uniform (- 5) 5 (rnd (4 * k + 3)))"
  by (simp add: Simulation_init_def)

lemma first_particle:
  "x (particles (Simulation_init w h rnd_g) ! 0) = 5 + (w - 10) / 690"
  "y (particles (Simulation_init w h rnd_g) ! 0) = 5 + (h - 10) / 690"
  "radius (particles (Simulation_init w h rnd_g) ! 0) = 5"
  by (simp_all add: Simulation_init_nth PARTICLE_COUNT_def Particle_init_def uniform_def
      rnd_g_def PARTICLE_SIZE_def)

text \<open>
  C8 as stated fails in its scenario: the first particle of the simulation below is at
  \<open>x = 6\<close> in the 700 by 500 container; the resize to 350 by 250 leaves it at \<open>x = 5\<close>,
  its radius, and not at half its old coordinate.
\<close>

theorem resize_halving_counterexample:
  "width (Simulation_init 700 500 rnd_g) = 700 \<and>
   height (Simulation_init 700 500 rnd_g) = 500 \<and>
   x (particles (Simulation_init 700 500 rnd_g) ! 0) = 6 \<and>
   radius (particles (Simulation_init 700 500 rnd_g) ! 0) = 5 \<and>
   Simulation_resize (Simulation_init 700 500 rnd_g) 350 250 \<noteq> Inl ZeroDivisionError \<and>
   x (particles (projr (Simulation_resize (Simulation_init 700 500 rnd_g) 350 250)) ! 0) = 5 \<and>
   x (particles (projr (Simulation_resize (Simulation_init 700 500 rnd_g) 350 250)) ! 0)
     \<noteq> 0.5 * x (particles (Simulation_init 700 500 rnd_g) ! 0)"
proof -
  have wh: "width (Simulation_init 700 500 rnd_g) = 700" "height (Simulation_init 700 500 rnd_g) = 500"
    by (simp_all add: Simulation_init_def)
  have len: "0 < length (particles (Simulation_init 700 500 rnd_g))"
    by (simp add: Simulation_init_def PARTICLE_COUNT_def)
  have p0: "x (particles (Simulation_init 700 500 rnd_g) ! 0) = 6"
     "radius (particles (Simulation_init 700 500 rnd_g) ! 0) = 5"
    by (simp_all add: first_particle)
  have r: "Simulation_resize (Simulation_init 700 500 rnd_g) 350 250 =
      Inr ((Simulation_init 700 500 rnd_g)\<lparr>width := 350, height := 250, volume := 350 * 250,
             particles := map (\<lambda>p. resize_particle p 350 250 700 500)
                              (particles (Simulation_init 700 500 rnd_g))\<rparr>)"
    using Simulation_resize_Inr [of "Simulation_init 700 500 rnd_g" 350 250] wh by simp
  show ?thesis
    unfolding r using len by (simp add: wh p0 resize_particle_fields)
qed


text \<open>
  C8 (amended). When the old width and height are not zero, \<open>Simulation.resize\<close>
  returns a simulation with the new width and height and \<open>volume = width * height\<close>
  whose particles are the old ones with \<open>x\<close> multiplied by
  \<open>new_width / old_width\<close> and then taken through \<open>min (max _ radius) (new_width - radius)\<close>,
  and \<open>y\<close> likewise; velocities and radii are unchanged. The new coordinate is within
  \<open>[radius, dim - radius]\<close> when \<open>2 * radius \<le> dim\<close>, and it is the scaled coordinate
  exactly when that one is already within those bounds.
\<close>

theorem resize_scales_then_clamps:
  assumes "width s \<noteq> 0" and "height s \<noteq> 0"
  shows "\<exists>s'. Simulation_resize s w h = Inr s' \<and>
           width s' = w \<and> height s' = h \<and> volume s' = w * h \<and>
           length (particles s') = length (particles s) \<and>
           (\<forall>k < length (particles s).
              x (particles s' ! k) =
                min (max (x (particles s ! k) * (w / width s)) (radius (particles s ! k)))
                    (w - radius (particles s ! k)) \<and>
              y (particles s' ! k) =
                min (max (y (particles s ! k) * (h / height s)) (radius (particles s ! k)))
                    (h - radius (particles s ! k)) \<and>
              vx (particles s' ! k) = vx (particles s ! k) \<and>
              vy (particles s' ! k) = vy (particles s ! k) \<and>
              radius (particles s' ! k) = radius (particles s ! k) \<and>
              (2 * radius (particles s ! k) \<le> w \<longrightarrow>
                 radius (particles s ! k) \<le> x (particles s' ! k) \<and>
                 x (particles s' ! k) \<le> w - radius (particles s ! k)) \<and>
              (2 * radius (particles s ! k) \<le> h \<longrightarrow>
                 radius (particles s ! k) \<le> y (particles s' ! k) \<and>
                 y (particles s' ! k) \<le> h - radius (particles s ! k)) \<and>
              (radius (particles s ! k) \<le> x (particles s ! k) * (w / width s) \<and>
               x (particles s ! k) * (w / width s) \<le> w - radius (particles s ! k) \<longrightarrow>
                 x (particles s' ! k) = x (particles s ! k) * (w / width s)) \<and>
              (radius (particles s ! k) \<le> y (particles s ! k) * (h / height s) \<and>
               y (particles s ! k) * (h / height s) \<le> h - radius (particles s ! k) \<longrightarrow>
                 y (particles s' ! k) = y (particles s ! k) * (h / height s)))"
  unfolding Simulation_resize_Inr [OF assms]
  by (auto simp add: resize_particle_fields)

theorem resize_scales_then_clamps_witness:
  "width (Simulation_init 700 500 rnd_g) \<noteq> 0 \<and>
   height (Simulation_init 700 500 rnd_g) \<noteq> 0 \<and>
   volume (projr (Simulation_resize (Simulation_init 700 500 rnd_g) 350 250)) = 87500 \<and>
   x (particles (projr (Simulation_resize (Simulation_init 700 500 rnd_g) 350 250)) ! 0) = 5"
proof -
  let ?S = "Simulation_init 700 500 rnd_g"
  have wh: "width ?S = 700" "height ?S = 500"
    by (simp_all add: Simulation_init_def)
  have nz: "width ?S \<noteq> 0" "height ?S \<noteq> 0"
    by (simp_all add: wh)
  have len: "0 < length (particles ?S)"
    by (simp add: Simulation_init_def PARTICLE_COUNT_def)
  from resize_scales_then_clamps [OF nz, of 350 250] obtain s'
    where r: "Simulation_resize ?S 350 250 = Inr s'"
      and v: "volume s' = 350 * 250"
      and a: "\<forall>k < length (particles ?S).
              x (particles s' ! k) =
                min (max (x (particles ?S ! k) * (350 / width ?S)) (radius (particles ?S ! k)))
                    (350 - radius (particles ?S ! k))"
    by blast
  from a len have "x (particles s' ! 0) = 5"
    by (simp add: wh first_particle)
  with nz v r show ?thesis
    by simp
qed

section \<open>Properties of the constructor of Simulation\<close>





section \<open>Properties of Simulation.update\<close>

lemma Simulation_update_InrD:
  assumes "Simulation_update s dt = Inr s'"
  shows "\<exists>g ps2.
           rebuild_grid (width s) (height s)
             (map (\<lambda>p. snd (Particle_update p (width s) (height s))) (particles s)) = Inr g \<and>
           collide_all g (map (\<lambda>p. snd (Particle_update p (width s) (height s))) (particles s))
             [0..<length (particles s)] = Inr ps2 \<and>
           (if time_elapsed s + dt \<ge> 1
            then (time_elapsed s + dt) * width s * height s \<noteq> 0 \<and>
                 s' = s\<lparr>particles := ps2, spatial_grid := g,
                         pressure := of_int (collision_count s + wall_collisions s)
                                       / ((time_elapsed s + dt) * width s * height s) * 1000,
                         collision_count := 0, time_elapsed := 0,
                         temperature :=
                           (of_int (collision_count s + wall_collisions s)
                              / ((time_elapsed s + dt) * width s * height s) * 1000 * volume s)
                             / (real PARTICLE_COUNT * GAS_CONSTANT)\<rparr>
            else s' = s\<lparr>particles := ps2, spatial_grid := g,
                         collision_count := collision_count s + wall_collisions s,
                         time_elapsed := time_elapsed s + dt,
                         temperature := (pressure s * volume s)
                                          / (real PARTICLE_COUNT * GAS_CONSTANT)\<rparr>)"
  using assms
  by (auto simp add: Simulation_update_def Let_def wall_collisions_def filter_map o_def
      split: sum.splits if_splits)

text \<open>
  C5 (pressure window). For a call of \<open>Simulation.update\<close> that returns: when the
  accumulated time with \<open>dt\<close> added reaches 1, the pressure becomes the wall collisions
  of the window (those counted before plus those of this tick) divided by the accumulated
  time times width times height, times 1000, and the collision count and the timer are
  reset to zero; otherwise the pressure is unchanged and the count and the timer
  accumulate. In both cases the temperature is
  \<open>pressure * volume / (PARTICLE_COUNT * GAS_CONSTANT)\<close>, and width, height and volume
  are unchanged.
\<close>

theorem pressure_window:
  assumes "Simulation_update s dt = Inr s'"
  shows "(time_elapsed s + dt \<ge> 1 \<longrightarrow>
            pressure s' = of_int (collision_count s + wall_collisions s)
                            / ((time_elapsed s + dt) * width s * height s) * 1000 \<and>
            collision_count s' = 0 \<and> time_elapsed s' = 0) \<and>
         (\<not> time_elapsed s + dt \<ge> 1 \<longrightarrow>
            pressure s' = pressure s \<and>
            collision_count s' = collision_count s + wall_collisions s \<and>
            time_elapsed s' = time_elapsed s + dt) \<and>
         temperature s' = pressure s' * volume s' / (real PARTICLE_COUNT * GAS_CONSTANT) \<and>
         width s' = width s \<and> height s' = height s \<and> volume s' = volume s"
proof (cases "time_elapsed s + dt \<ge> 1")
  case True
  with Simulation_update_InrD [OF assms] obtain g ps2 where
    "s' = s\<lparr>particles := ps2, spatial_grid := g,
            pressure := of_int (collision_count s + wall_collisions s)
                          / ((time_elapsed s + dt) * width s * height s) * 1000,
            collision_count := 0, time_elapsed := 0,
            temperature :=
              (of_int (collision_count s + wall_collisions s)
                 / ((time_elapsed s + dt) * width s * height s) * 1000 * volume s)
                / (real PARTICLE_COUNT * GAS_CONSTANT)\<rparr>"
    by auto
  with True show ?thesis by simp
next
  case False
  with Simulation_update_InrD [OF assms] obtain g ps2 where
    "s' = s\<lparr>particles := ps2, spatial_grid := g,
            collision_count := collision_count s + wall_collisions s,
            time_elapsed := time_elapsed s + dt,
            temperature := (pressure s * volume s)
                             / (real PARTICLE_COUNT * GAS_CONSTANT)\<rparr>"
    by auto
  with False show ?thesis by simp
qed


lemma sqrt_144: "sqrt 144 = 12"
  by (rule real_sqrt_unique) simp_all

lemma update_i:
  "x (snd (Particle_update particle_i 30 30)) = 5" "y (snd (Particle_update particle_i 30 30)) = 15"
  "fst (Particle_update particle_i 30 30)"
  "x (snd (Particle_update particle_j 30 30)) = 17" "y (snd (Particle_update particle_j 30 30)) = 15"
  "\<not> fst (Particle_update particle_j 30 30)"
  by (simp_all add: Particle_update_x Particle_update_y Particle_update_fst particle_i_def particle_j_def)

lemma radius_ij: "radius particle_i = 5" "radius particle_j = 5"
  by (simp_all add: particle_i_def particle_j_def)

lemma grid_h:
  "rebuild_grid 30 30 [snd (Particle_update particle_i 30 30), snd (Particle_update particle_j 30 30)]
     = Inr \<lparr> cell_size = 10, cols = 4, rows = 4,
             grid = [[[], [0], [], []], [[], [1], [], []], [[], [], [], []], [[], [], [], []]] \<rparr>"
  by (simp add: rebuild_grid_def SpatialGrid_init_def SpatialGrid_insert_def clamp_index_def
      cell_of_def py_int_def py_index_def CELL_SIZE_def PARTICLE_SIZE_def Let_def update_i
      eval_nat_numeral)


lemma collide_h:
  "collide_all \<lparr> cell_size = 10, cols = 4, rows = 4,
             grid = [[[], [0], [], []], [[], [1], [], []], [[], [], [], []], [[], [], [], []]] \<rparr>
     [snd (Particle_update particle_i 30 30), snd (Particle_update particle_j 30 30)] [0, 1]
   = Inr [snd (Particle_update particle_i 30 30), snd (Particle_update particle_j 30 30)]"
  by (simp add: SpatialGrid_get_potential_collisions_def clamp_index_def
      cell_of_def py_int_def py_index_def py_range_def Let_def update_i
      check_particle_collision_def sqrt_144 radius_ij upto_rec1)

theorem pressure_window_witness:
  "Simulation_update simulation_h (1 / 4) = Inr (projr (Simulation_update simulation_h (1 / 4))) \<and>
   time_elapsed simulation_h + 1 / 4 \<ge> 1 \<and>
   pressure (projr (Simulation_update simulation_h (1 / 4))) = 40 / 9 \<and>
   collision_count (projr (Simulation_update simulation_h (1 / 4))) = 0 \<and>
   time_elapsed (projr (Simulation_update simulation_h (1 / 4))) = 0 \<and>
   temperature (projr (Simulation_update simulation_h (1 / 4))) = 40"
proof -
  have "\<exists>s'. Simulation_update simulation_h (1 / 4) = Inr s'"
    using grid_h collide_h
    by (simp add: Simulation_update_def simulation_h_def Let_def eval_nat_numeral)
  then have run: "Simulation_update simulation_h (1 / 4)
                    = Inr (projr (Simulation_update simulation_h (1 / 4)))"
    by auto
  have w: "wall_collisions simulation_h = 1"
    by (simp add: wall_collisions_def simulation_h_def update_i)
  have f: "width simulation_h = 30" "height simulation_h = 30" "volume simulation_h = 900"
    "collision_count simulation_h = 3" "time_elapsed simulation_h = 3 / 4"
    by (simp_all add: simulation_h_def)
  from pressure_window [OF run]
  have p: "pressure (projr (Simulation_update simulation_h (1 / 4))) = 40 / 9"
    and c: "collision_count (projr (Simulation_update simulation_h (1 / 4))) = 0"
    and t: "time_elapsed (projr (Simulation_update simulation_h (1 / 4))) = 0"
    and v: "volume (projr (Simulation_update simulation_h (1 / 4))) = 900"
    and T: "temperature (projr (Simulation_update simulation_h (1 / 4)))
              = pressure (projr (Simulation_update simulation_h (1 / 4)))
                  * volume (projr (Simulation_update simulation_h (1 / 4)))
                  / (real PARTICLE_COUNT * GAS_CONSTANT)"
    by (simp_all add: f w)
  have "temperature (projr (Simulation_update simulation_h (1 / 4))) = 40"
    unfolding T p v by (simp add: PARTICLE_COUNT_def GAS_CONSTANT_def)
  with run p c t show ?thesis
    by (simp add: f)
qed

section \<open>Properties of SpatialGrid\<close>

lemma cell_of_floor: "cell_of v cs = \<lfloor>v / cs\<rfloor>"
  by (simp add: cell_of_def py_int_def)

lemma clamp_index_range:
  assumes "1 \<le> n"
  shows "0 \<le> clamp_index v cs n" and "clamp_index v cs n < n"
  using assms by (simp_all add: clamp_index_def)

lemma py_index_in_range:
  assumes "0 \<le> i" and "i < int (length xs)"
  shows "py_index xs i = Inr (nat i)"
  using assms by (simp add: py_index_def Let_def)

lemma py_index_empty: "py_index [] i = Inl IndexError"
  by (simp add: py_index_def Let_def)

lemma wf_grid_init:
  "wf_grid (SpatialGrid_init w h) \<longleftrightarrow>
     1 \<le> cols (SpatialGrid_init w h) \<and> 1 \<le> rows (SpatialGrid_init w h)"
  by (auto simp add: wf_grid_def SpatialGrid_init_def Let_def CELL_SIZE_def PARTICLE_SIZE_def)

lemma insert_init_fails:
  assumes "\<not> wf_grid (SpatialGrid_init w h)"
  shows "SpatialGrid_insert (SpatialGrid_init w h) ps k = Inl IndexError"
proof -
  let ?g = "SpatialGrid_init w h"
  have cs: "cell_size ?g \<noteq> 0"
    by (simp add: SpatialGrid_init_def Let_def CELL_SIZE_def PARTICLE_SIZE_def)
  have shape: "grid ?g = replicate (nat (cols ?g)) (replicate (nat (rows ?g)) [])"
    by (simp add: SpatialGrid_init_def Let_def)
  from assms consider (c) "cols ?g < 1" | (r) "1 \<le> cols ?g" "rows ?g < 1"
    unfolding wf_grid_init by linarith
  then show ?thesis
  proof cases
    case c
    then have "grid ?g = []" using shape by simp
    then show ?thesis
      using cs by (simp add: SpatialGrid_insert_def Let_def py_index_empty)
  next
    case r
    let ?col = "clamp_index (x (ps ! k)) (cell_size ?g) (cols ?g)"
    have col: "py_index (grid ?g) ?col = Inr (nat ?col)"
      using clamp_index_range [OF r(1)] r(1)
      by (intro py_index_in_range) (simp_all add: shape)
    have "nat ?col < nat (cols ?g)"
      using clamp_index_range [OF r(1), of "x (ps ! k)" "cell_size ?g"] by linarith
    then have "grid ?g ! nat ?col = []"
      using r(2) by (simp add: shape)
    then show ?thesis
      using cs col by (simp add: SpatialGrid_insert_def Let_def py_index_empty)
  qed
qed

lemma insert_wf:
  assumes "wf_grid g"
  shows "SpatialGrid_insert g ps k =
           Inr (g\<lparr>grid := (grid g)[col_of g (ps ! k) :=
                    (grid g ! col_of g (ps ! k))[row_of g (ps ! k) :=
                       grid g ! col_of g (ps ! k) ! row_of g (ps ! k) @ [k]]]\<rparr>)"
    and "col_of g (ps ! k) < nat (cols g)" and "row_of g (ps ! k) < nat (rows g)"
proof -
  let ?col = "clamp_index (x (ps ! k)) (cell_size g) (cols g)"
  let ?row = "clamp_index (y (ps ! k)) (cell_size g) (rows g)"
  from assms have cs: "cell_size g \<noteq> 0" and c1: "1 \<le> cols g" and r1: "1 \<le> rows g"
    and len: "length (grid g) = nat (cols g)"
    and lens: "\<forall>c \<in> set (grid g). length c = nat (rows g)"
    by (simp_all add: wf_grid_def)
  show c: "col_of g (ps ! k) < nat (cols g)"
    unfolding col_of_def using clamp_index_range [OF c1, of "x (ps ! k)" "cell_size g"] by linarith
  show r: "row_of g (ps ! k) < nat (rows g)"
    unfolding row_of_def using clamp_index_range [OF r1, of "y (ps ! k)" "cell_size g"] by linarith
  have col: "py_index (grid g) ?col = Inr (col_of g (ps ! k))"
    unfolding col_of_def using clamp_index_range [OF c1, of "x (ps ! k)" "cell_size g"] len
    by (intro py_index_in_range) simp_all
  have "grid g ! col_of g (ps ! k) \<in> set (grid g)"
    using c len by simp
  then have l: "length (grid g ! col_of g (ps ! k)) = nat (rows g)"
    using lens by blast
  have row: "py_index (grid g ! col_of g (ps ! k)) ?row = Inr (row_of g (ps ! k))"
    unfolding row_of_def using clamp_index_range [OF r1, of "y (ps ! k)" "cell_size g"] l
    by (intro py_index_in_range) (simp_all add: col_of_def)
  show "SpatialGrid_insert g ps k =
           Inr (g\<lparr>grid := (grid g)[col_of g (ps ! k) :=
                    (grid g ! col_of g (ps ! k))[row_of g (ps ! k) :=
                       grid g ! col_of g (ps ! k) ! row_of g (ps ! k) @ [k]]]\<rparr>)"
    using cs col row by (simp add: SpatialGrid_insert_def Let_def)
qed


lemma insert_step:
  assumes "wf_grid g"
  obtains g' where "SpatialGrid_insert g ps k = Inr g'" and "wf_grid g'"
    and "cols g' = cols g" and "rows g' = rows g" and "cell_size g' = cell_size g"
    and "\<And>c r. c < nat (cols g) \<Longrightarrow> r < nat (rows g) \<Longrightarrow>
           set (cell g' c r) =
             set (cell g c r) \<union> (if c = col_of g (ps ! k) \<and> r = row_of g (ps ! k) then {k} else {})"
proof -
  let ?c = "col_of g (ps ! k)" and ?r = "row_of g (ps ! k)"
  let ?g' = "g\<lparr>grid := (grid g)[?c := (grid g ! ?c)[?r := grid g ! ?c ! ?r @ [k]]]\<rparr>"
  note i = insert_wf [OF assms, of ps k]
  from assms have len: "length (grid g) = nat (cols g)"
    and lens: "\<forall>c \<in> set (grid g). length c = nat (rows g)"
    by (simp_all add: wf_grid_def)
  have lenc: "length (grid g ! c) = nat (rows g)" if "c < nat (cols g)" for c
    using lens len that by simp
  have wf': "wf_grid ?g'"
    using assms lenc [OF i(2)]
    by (auto simp add: wf_grid_def dest!: set_update_subset_insert [THEN subsetD])
  have cells: "set (cell ?g' c r) =
             set (cell g c r) \<union> (if c = ?c \<and> r = ?r then {k} else {})"
    if "c < nat (cols g)" "r < nat (rows g)" for c r
  proof -
    have "cell ?g' c r = (if c = ?c \<and> r = ?r then cell g c r @ [k] else cell g c r)"
    proof (cases "c = ?c")
      case True
      then show ?thesis
        using that len lenc [OF i(2)] by (simp add: cell_def nth_list_update)
    next
      case False
      then show ?thesis
        using that len by (simp add: cell_def)
    qed
    then show ?thesis by simp
  qed
  show thesis
    by (rule that [of ?g']) (use i(1) wf' cells in simp_all)
qed

lemma insert_all_wf:
  assumes "wf_grid g"
  shows "\<exists>g'. insert_all g ps ks = Inr g' \<and> wf_grid g' \<and>
           cols g' = cols g \<and> rows g' = rows g \<and> cell_size g' = cell_size g \<and>
           (\<forall>c < nat (cols g). \<forall>r < nat (rows g).
              set (cell g' c r) =
                set (cell g c r) \<union> {k \<in> set ks. c = col_of g (ps ! k) \<and> r = row_of g (ps ! k)})"
  using assms
proof (induction ks arbitrary: g)
  case Nil
  then show ?case by simp
next
  case (Cons k ks)
  from insert_step [OF Cons.prems, of ps k] obtain g1 where
    g1: "SpatialGrid_insert g ps k = Inr g1" "wf_grid g1"
      "cols g1 = cols g" "rows g1 = rows g" "cell_size g1 = cell_size g"
    and c1: "\<And>c r. c < nat (cols g) \<Longrightarrow> r < nat (rows g) \<Longrightarrow>
           set (cell g1 c r) =
             set (cell g c r) \<union> (if c = col_of g (ps ! k) \<and> r = row_of g (ps ! k) then {k} else {})"
    by blast
  from Cons.IH [OF g1(2)] obtain g' where
    g': "insert_all g1 ps ks = Inr g'" "wf_grid g'"
      "cols g' = cols g1" "rows g' = rows g1" "cell_size g' = cell_size g1"
    and c': "\<forall>c < nat (cols g1). \<forall>r < nat (rows g1).
              set (cell g' c r) =
                set (cell g1 c r) \<union> {k \<in> set ks. c = col_of g1 (ps ! k) \<and> r = row_of g1 (ps ! k)}"
    by blast
  have same: "col_of g1 p = col_of g p" "row_of g1 p = row_of g p" for p
    by (simp_all add: col_of_def row_of_def g1)
  have "insert_all g ps (k # ks) = Inr g'"
    by (simp add: g1(1) g'(1))
  moreover have "set (cell g' c r) =
                set (cell g c r) \<union> {k' \<in> set (k # ks). c = col_of g (ps ! k') \<and> r = row_of g (ps ! k')}"
    if "c < nat (cols g)" "r < nat (rows g)" for c r
    using c' [rule_format, of c r] c1 [of c r] that
    by (auto simp add: g1 same)
  ultimately show ?case
    using g' g1 by auto
qed


lemma extend_rows_in_range:
  assumes "0 \<le> i" and "i < int (length G)"
    and "\<forall>j \<in> set js. 0 \<le> j \<and> j < int (length (G ! nat i))"
  shows "extend_rows G i js acc = Inr (acc @ concat (map (\<lambda>j. G ! nat i ! nat j) js))"
  using assms(3)
proof (induction js arbitrary: acc)
  case Nil
  then show ?case by simp
next
  case (Cons j js)
  have "py_index G i = Inr (nat i)"
    using assms(1,2) by (rule py_index_in_range)
  moreover have "py_index (G ! nat i) j = Inr (nat j)"
    using Cons.prems by (intro py_index_in_range) simp_all
  ultimately show ?case
    using Cons by simp
qed

lemma extend_cols_in_range:
  assumes "\<forall>i \<in> set ks. 0 \<le> i \<and> i < int (length G)"
    and "\<forall>c \<in> set G. length c = n"
    and "\<forall>j \<in> set js. 0 \<le> j \<and> j < int n"
  shows "extend_cols G ks js acc =
           Inr (acc @ concat (map (\<lambda>i. concat (map (\<lambda>j. G ! nat i ! nat j) js)) ks))"
  using assms(1)
proof (induction ks arbitrary: acc)
  case Nil
  then show ?case by simp
next
  case (Cons i ks)
  from Cons.prems have i: "0 \<le> i" "i < int (length G)"
    by simp_all
  then have "G ! nat i \<in> set G"
    by simp
  then have "length (G ! nat i) = n"
    using assms(2) by blast
  then have "extend_rows G i js acc = Inr (acc @ concat (map (\<lambda>j. G ! nat i ! nat j) js))"
    using i assms(3) by (intro extend_rows_in_range) simp_all
  then show ?case
    using Cons by simp
qed

lemma candidates_wf:
  assumes "wf_grid g"
  shows "\<exists>cands. SpatialGrid_get_potential_collisions g ps k = Inr cands \<and>
           (\<forall>c r. int c \<in> {max 0 (int (col_of g (ps ! k)) - 1)
                              .. min (int (col_of g (ps ! k)) + 2) (cols g) - 1} \<longrightarrow>
                  int r \<in> {max 0 (int (row_of g (ps ! k)) - 1)
                              .. min (int (row_of g (ps ! k)) + 2) (rows g) - 1} \<longrightarrow>
                  set (cell g c r) \<subseteq> set cands)"
proof -
  let ?col = "clamp_index (x (ps ! k)) (cell_size g) (cols g)"
  let ?row = "clamp_index (y (ps ! k)) (cell_size g) (rows g)"
  let ?ks = "py_range (max 0 (?col - 1)) (min (?col + 2) (cols g))"
  let ?js = "py_range (max 0 (?row - 1)) (min (?row + 2) (rows g))"
  let ?res = "concat (map (\<lambda>i. concat (map (\<lambda>j. grid g ! nat i ! nat j) ?js)) ?ks)"
  from assms have cs: "cell_size g \<noteq> 0" and c1: "1 \<le> cols g" and r1: "1 \<le> rows g"
    and len: "length (grid g) = nat (cols g)"
    and lens: "\<forall>c \<in> set (grid g). length c = nat (rows g)"
    by (simp_all add: wf_grid_def)
  have col: "int (col_of g (ps ! k)) = ?col" and row: "int (row_of g (ps ! k)) = ?row"
    using clamp_index_range(1) [OF c1] clamp_index_range(1) [OF r1]
    by (simp_all add: col_of_def row_of_def)
  have "extend_cols (grid g) ?ks ?js [] = Inr ([] @ ?res)"
    using len c1 r1 by (intro extend_cols_in_range [OF _ lens]) (auto simp add: py_range_def)
  then have run: "SpatialGrid_get_potential_collisions g ps k = Inr ?res"
    using cs by (simp add: SpatialGrid_get_potential_collisions_def Let_def)
  have "set (cell g c r) \<subseteq> set ?res"
    if "int c \<in> {max 0 (?col - 1) .. min (?col + 2) (cols g) - 1}"
      and "int r \<in> {max 0 (?row - 1) .. min (?row + 2) (rows g) - 1}" for c r
  proof
    fix e assume e: "e \<in> set (cell g c r)"
    have "int c \<in> set ?ks" "int r \<in> set ?js"
      using that by (simp_all add: py_range_def)
    with e show "e \<in> set ?res"
      by (force simp add: cell_def)
  qed
  with run show ?thesis
    unfolding col row by blast
qed


lemma abs_le_center_distance:
  "\<bar>x p2 - x p1\<bar> \<le> center_distance p1 p2" "\<bar>y p2 - y p1\<bar> \<le> center_distance p1 p2"
proof -
  have "sqrt ((x p2 - x p1)\<^sup>2) \<le> sqrt ((x p2 - x p1)\<^sup>2 + (y p2 - y p1)\<^sup>2)"
    by (rule real_sqrt_le_mono) simp
  then show "\<bar>x p2 - x p1\<bar> \<le> center_distance p1 p2"
    by (simp add: center_distance_def)
  have "sqrt ((y p2 - y p1)\<^sup>2) \<le> sqrt ((x p2 - x p1)\<^sup>2 + (y p2 - y p1)\<^sup>2)"
    by (rule real_sqrt_le_mono) simp
  then show "\<bar>y p2 - y p1\<bar> \<le> center_distance p1 p2"
    by (simp add: center_distance_def)
qed

lemma floor_adjacent:
  fixes a b cs :: real
  assumes "0 < cs" and "\<bar>b - a\<bar> < cs"
  shows "\<bar>\<lfloor>b / cs\<rfloor> - \<lfloor>a / cs\<rfloor>\<bar> \<le> 1"
proof -
  have "\<bar>b / cs - a / cs\<bar> = \<bar>b - a\<bar> / cs"
    using assms(1) by (simp add: diff_divide_distrib [symmetric])
  also have "\<dots> < 1"
    using assms by simp
  finally have "\<bar>b / cs - a / cs\<bar> < 1" .
  then show ?thesis
    by linarith
qed

lemma clamp_adjacent:
  assumes "1 \<le> n" and "\<bar>cell_of b cs - cell_of a cs\<bar> \<le> 1"
  shows "clamp_index b cs n \<in> {max 0 (clamp_index a cs n - 1) .. min (clamp_index a cs n + 2) n - 1}"
  using assms by (simp add: clamp_index_def) linarith


lemma neighbours:
  assumes "wf_grid g" and "0 < cell_size g"
    and "\<bar>x q - x p\<bar> < cell_size g" and "\<bar>y q - y p\<bar> < cell_size g"
  shows "int (col_of g q) \<in> {max 0 (int (col_of g p) - 1) .. min (int (col_of g p) + 2) (cols g) - 1}"
    and "int (row_of g q) \<in> {max 0 (int (row_of g p) - 1) .. min (int (row_of g p) + 2) (rows g) - 1}"
proof -
  from assms(1) have c1: "1 \<le> cols g" and r1: "1 \<le> rows g"
    by (simp_all add: wf_grid_def)
  have col: "int (col_of g v) = clamp_index (x v) (cell_size g) (cols g)"
    and row: "int (row_of g v) = clamp_index (y v) (cell_size g) (rows g)" for v
    using clamp_index_range(1) [OF c1] clamp_index_range(1) [OF r1]
    by (simp_all add: col_of_def row_of_def)
  have "\<bar>cell_of (x q) (cell_size g) - cell_of (x p) (cell_size g)\<bar> \<le> 1"
    unfolding cell_of_floor using assms(2,3) by (rule floor_adjacent)
  then show "int (col_of g q) \<in> {max 0 (int (col_of g p) - 1) .. min (int (col_of g p) + 2) (cols g) - 1}"
    unfolding col by (rule clamp_adjacent [OF c1])
  have "\<bar>cell_of (y q) (cell_size g) - cell_of (y p) (cell_size g)\<bar> \<le> 1"
    unfolding cell_of_floor using assms(2,4) by (rule floor_adjacent)
  then show "int (row_of g q) \<in> {max 0 (int (row_of g p) - 1) .. min (int (row_of g p) + 2) (rows g) - 1}"
    unfolding row by (rule clamp_adjacent [OF r1])
qed

lemma rebuild_grid_Inr:
  assumes "rebuild_grid w h ps = Inr g" and "ps \<noteq> []"
  shows "wf_grid g" and "cell_size g = CELL_SIZE"
    and "\<And>k. k < length ps \<Longrightarrow> k \<in> set (cell g (col_of g (ps ! k)) (row_of g (ps ! k)))"
proof -
  let ?g0 = "SpatialGrid_init w h"
  have wf0: "wf_grid ?g0"
  proof (rule ccontr)
    assume "\<not> wf_grid ?g0"
    then have "SpatialGrid_insert ?g0 ps 0 = Inl IndexError"
      by (rule insert_init_fails)
    moreover have "[0..<length ps] = 0 # [1..<length ps]"
      using assms(2) by (simp add: upt_conv_Cons)
    ultimately have "rebuild_grid w h ps = Inl IndexError"
      by (simp add: rebuild_grid_def)
    with assms(1) show False by simp
  qed
  from insert_all_wf [OF wf0, of ps "[0..<length ps]"] assms(1)
  have wf: "wf_grid g"
    and same: "cols g = cols ?g0" "rows g = rows ?g0" "cell_size g = cell_size ?g0"
    and cells: "\<forall>c < nat (cols ?g0). \<forall>r < nat (rows ?g0).
              set (cell g c r) =
                set (cell ?g0 c r) \<union> {k \<in> set [0..<length ps]. c = col_of ?g0 (ps ! k) \<and> r = row_of ?g0 (ps ! k)}"
    by (auto simp add: rebuild_grid_def)
  show "wf_grid g" by (rule wf)
  show "cell_size g = CELL_SIZE"
    by (simp add: same SpatialGrid_init_def Let_def)
  fix k assume k: "k < length ps"
  have eq: "col_of g p = col_of ?g0 p" "row_of g p = row_of ?g0 p" for p
    by (simp_all add: col_of_def row_of_def same)
  have "col_of ?g0 (ps ! k) < nat (cols ?g0)" "row_of ?g0 (ps ! k) < nat (rows ?g0)"
    using insert_wf(2,3) [OF wf0] by simp_all
  with cells k show "k \<in> set (cell g (col_of g (ps ! k)) (row_of g (ps ! k)))"
    unfolding eq by simp
qed

text \<open>
  C4 (grid completeness). Let the grid be rebuilt from the particles \<open>ps\<close>: a new
  \<open>SpatialGrid\<close> and one \<open>insert\<close> for each particle. For two particles \<open>i\<close> and
  \<open>j\<close> whose centres are closer than the sum of their radii, with that sum at most the
  cell size, \<open>get_potential_collisions\<close> returns for each of the two a list that
  contains the other; in particular at least one of the two lists does.
\<close>

theorem grid_completeness:
  assumes "rebuild_grid w h ps = Inr g" and "i < length ps" and "j < length ps"
    and "center_distance (ps ! i) (ps ! j) < radius (ps ! i) + radius (ps ! j)"
    and "radius (ps ! i) + radius (ps ! j) \<le> CELL_SIZE"
  shows "\<exists>ci cj. SpatialGrid_get_potential_collisions g ps i = Inr ci \<and>
                 SpatialGrid_get_potential_collisions g ps j = Inr cj \<and>
                 j \<in> set ci \<and> i \<in> set cj"
proof -
  have ne: "ps \<noteq> []"
    using assms(2) by auto
  note g = rebuild_grid_Inr [OF assms(1) ne]
  have pos: "0 < cell_size g"
    by (simp add: g(2) CELL_SIZE_def PARTICLE_SIZE_def)
  have d: "center_distance (ps ! i) (ps ! j) < cell_size g"
    using assms(4,5) g(2) by simp
  have xy: "\<bar>x (ps ! j) - x (ps ! i)\<bar> < cell_size g" "\<bar>y (ps ! j) - y (ps ! i)\<bar> < cell_size g"
    using abs_le_center_distance [of "ps ! j" "ps ! i"] d by simp_all
  then have yx: "\<bar>x (ps ! i) - x (ps ! j)\<bar> < cell_size g" "\<bar>y (ps ! i) - y (ps ! j)\<bar> < cell_size g"
    by (simp_all add: abs_minus_commute)
  from candidates_wf [OF g(1), of ps i] obtain ci where
    ci: "SpatialGrid_get_potential_collisions g ps i = Inr ci"
      "\<And>c r. int c \<in> {max 0 (int (col_of g (ps ! i)) - 1)
                              .. min (int (col_of g (ps ! i)) + 2) (cols g) - 1} \<Longrightarrow>
                  int r \<in> {max 0 (int (row_of g (ps ! i)) - 1)
                              .. min (int (row_of g (ps ! i)) + 2) (rows g) - 1} \<Longrightarrow>
                  set (cell g c r) \<subseteq> set ci"
    by blast
  from candidates_wf [OF g(1), of ps j] obtain cj where
    cj: "SpatialGrid_get_potential_collisions g ps j = Inr cj"
      "\<And>c r. int c \<in> {max 0 (int (col_of g (ps ! j)) - 1)
                              .. min (int (col_of g (ps ! j)) + 2) (cols g) - 1} \<Longrightarrow>
                  int r \<in> {max 0 (int (row_of g (ps ! j)) - 1)
                              .. min (int (row_of g (ps ! j)) + 2) (rows g) - 1} \<Longrightarrow>
                  set (cell g c r) \<subseteq> set cj"
    by blast
  have "j \<in> set ci"
    using ci(2) [OF neighbours [OF g(1) pos xy]] g(3) [OF assms(3)] by blast
  moreover have "i \<in> set cj"
    using cj(2) [OF neighbours [OF g(1) pos yx]] g(3) [OF assms(2)] by blast
  ultimately show ?thesis
    using ci(1) cj(1) by blast
qed


theorem grid_completeness_witness:
  "rebuild_grid 30 30 [particle_i, particle_j]
     = Inr \<lparr> cell_size = 10, cols = 4, rows = 4,
             grid = [[[], [0], [], []], [[], [1], [], []], [[], [], [], []], [[], [], [], []]] \<rparr> \<and>
   center_distance particle_i particle_j < radius particle_i + radius particle_j \<and>
   radius particle_i + radius particle_j \<le> CELL_SIZE \<and>
   (\<exists>ci cj.
      SpatialGrid_get_potential_collisions
        \<lparr> cell_size = 10, cols = 4, rows = 4,
          grid = [[[], [0], [], []], [[], [1], [], []], [[], [], [], []], [[], [], [], []]] \<rparr>
        [particle_i, particle_j] 0 = Inr ci \<and>
      SpatialGrid_get_potential_collisions
        \<lparr> cell_size = 10, cols = 4, rows = 4,
          grid = [[[], [0], [], []], [[], [1], [], []], [[], [], [], []], [[], [], [], []]] \<rparr>
        [particle_i, particle_j] 1 = Inr cj \<and>
      1 \<in> set ci \<and> 0 \<in> set cj)"
proof -
  have xy: "x particle_i = 8" "y particle_i = 15" "x particle_j = 16" "y particle_j = 15"
    by (simp_all add: particle_i_def particle_j_def)
  have rb: "rebuild_grid 30 30 [particle_i, particle_j]
     = Inr \<lparr> cell_size = 10, cols = 4, rows = 4,
             grid = [[[], [0], [], []], [[], [1], [], []], [[], [], [], []], [[], [], [], []]] \<rparr>"
    by (simp add: rebuild_grid_def SpatialGrid_init_def SpatialGrid_insert_def clamp_index_def
      cell_of_def py_int_def py_index_def CELL_SIZE_def PARTICLE_SIZE_def Let_def xy
      eval_nat_numeral)
  have d: "center_distance ([particle_i, particle_j] ! 0) ([particle_i, particle_j] ! 1)
             < radius ([particle_i, particle_j] ! 0) + radius ([particle_i, particle_j] ! 1)"
    by (simp add: center_distance_def xy radius_ij sqrt_64)
  have r: "radius ([particle_i, particle_j] ! 0) + radius ([particle_i, particle_j] ! 1) \<le> CELL_SIZE"
    by (simp add: radius_ij CELL_SIZE_def PARTICLE_SIZE_def)
  from grid_completeness [OF rb _ _ d r] rb d r show ?thesis
    by simp
qed

end
